theory Spec2Isabelle
  imports Complex_Main "HOL-Library.Word"
begin

unbundle bit_operations_syntax

section \<open>Data model of \<open>sf::Text\<close> (src/SFML/Graphics/Text.cpp)\<close>

text \<open>
  The C++ type \<open>float\<close> is modelled by \<open>real\<close>: every arithmetic expression of the
  source is kept as written, evaluated without rounding error. Code points are
  \<open>std::uint32_t\<close>, the style is a \<open>std::uint32_t\<close> bit set, the texture cache id is a
  \<open>std::uint64_t\<close>; the character size and all indices are natural numbers (the
  source never subtracts from them).
\<close>

type_synonym char32 = "32 word"

type_synonym vector2f = "real \<times> real"

record color =
  red :: "8 word"
  green :: "8 word"
  blue :: "8 word"
  alpha :: "8 word"

record vertex =
  position :: vector2f
  color :: color
  texCoords :: vector2f

record floatRect =
  rect_left :: real
  rect_top :: real
  rect_width :: real
  rect_height :: real

record intRect =
  irect_left :: int
  irect_top :: int
  irect_width :: int
  irect_height :: int

record glyph =
  advance :: real
  bounds :: floatRect
  textureRect :: intRect

datatype lineAlignment = Left | Center | Right

text \<open>
  The font provider is an external collaborator. The object behind \<open>m_font\<close> can change
  between two calls (its atlas may be repacked), so every operation takes the current
  font as an argument. \<open>getGlyph\<close> takes the code point, the character size, the bold
  flag and the outline thickness (0 where the source omits it);
  \<open>getTextureCacheId size\<close> is \<open>m_font->getTexture(size).m_cacheId\<close>.
\<close>

record font =
  getGlyph :: "char32 \<Rightarrow> nat \<Rightarrow> bool \<Rightarrow> real \<Rightarrow> glyph"
  getKerning :: "char32 \<Rightarrow> char32 \<Rightarrow> nat \<Rightarrow> bool \<Rightarrow> real"
  getLineSpacing :: "nat \<Rightarrow> real"
  getUnderlinePosition :: "nat \<Rightarrow> real"
  getUnderlineThickness :: "nat \<Rightarrow> real"
  getTextureCacheId :: "nat \<Rightarrow> 64 word"

record sfText =
  m_string :: "char32 list"
  m_characterSize :: nat
  m_letterSpacingFactor :: real
  m_lineSpacingFactor :: real
  m_style :: "32 word"
  m_fillColor :: color
  m_outlineColor :: color
  m_outlineThickness :: real
  m_lineAlignment :: lineAlignment
  m_vertices :: "vertex list"
  m_outlineVertices :: "vertex list"
  m_bounds :: floatRect
  m_geometryNeedUpdate :: bool
  m_fontTextureId :: "64 word"
  m_lineOffsets :: "real list"

record spacing =
  whitespaceWidth :: real
  letterSpacing :: real
  lineSpacing :: real

text \<open>Reading a \<open>std::vector\<close> outside its range is undefined behaviour; the model
  makes it an error value.\<close>

datatype error = OutOfRange

definition at_index :: "'a list \<Rightarrow> nat \<Rightarrow> error + 'a" where
  "at_index xs i = (if i < length xs then Inr (xs ! i) else Inl OutOfRange)"

subsection \<open>Constants declared outside Text.cpp\<close>

text \<open>Modelled from the spec: the enumeration \<open>Text::Style\<close> is declared in Text.hpp,
  which is not among the sources. The spec calls the four flags independent bits; they
  are taken in the order bold, italic, underline, strikethrough.\<close>

definition Bold :: "32 word" where "Bold = 1"
definition Italic :: "32 word" where "Italic = 2"
definition Underlined :: "32 word" where "Underlined = 4"
definition StrikeThrough :: "32 word" where "StrikeThrough = 8"

text \<open>Modelled from the spec: \<open>sf::degrees(12).asRadians()\<close> comes from Angle.hpp, which
  is not among the sources. The spec calls it a fixed small positive slope; it is the
  angle of 12 degrees in radians, written here to seven decimal places.\<close>

definition italicShearAngle :: real where
  "italicShearAngle = 2094395 / 10000000"

subsection \<open>The functions of \<open><cmath>\<close>\<close>

definition std_floor :: "real \<Rightarrow> real" where
  "std_floor v = of_int \<lfloor>v\<rfloor>"

definition std_ceil :: "real \<Rightarrow> real" where
  "std_ceil v = of_int \<lceil>v\<rceil>"

text \<open>\<open>std::round\<close> rounds halfway cases away from zero.\<close>

definition std_round :: "real \<Rightarrow> real" where
  "std_round v = (if 0 \<le> v then of_int \<lfloor>v + 1 / 2\<rfloor> else of_int \<lceil>v - 1 / 2\<rceil>)"

subsection \<open>Style flags and spacing\<close>

definition isBold :: "sfText \<Rightarrow> bool" where
  "isBold t = (m_style t AND Bold \<noteq> 0)"

definition isUnderlined :: "sfText \<Rightarrow> bool" where
  "isUnderlined t = (m_style t AND Underlined \<noteq> 0)"

definition isStrikeThrough :: "sfText \<Rightarrow> bool" where
  "isStrikeThrough t = (m_style t AND StrikeThrough \<noteq> 0)"

definition italicShear :: "sfText \<Rightarrow> real" where
  "italicShear t = (if m_style t AND Italic \<noteq> 0 then italicShearAngle else 0)"

text \<open>\<open>Text::getSpacing\<close>.\<close>

definition getSpacing :: "font \<Rightarrow> sfText \<Rightarrow> spacing" where
  "getSpacing f t =
     (let whitespaceWidth0 = advance (getGlyph f 32 (m_characterSize t) (isBold t) 0);
          letterSpacing0 = (whitespaceWidth0 / 3) * (m_letterSpacingFactor t - 1);
          whitespaceWidth1 = whitespaceWidth0 + letterSpacing0;
          lineSpacing0 = getLineSpacing f (m_characterSize t) * m_lineSpacingFactor t
      in \<lparr>whitespaceWidth = whitespaceWidth1, letterSpacing = letterSpacing0,
          lineSpacing = lineSpacing0\<rparr>)"

subsection \<open>Loops over the indices of a vertex array or vector\<close>

text \<open>The loop \<open>for (i = start; i < size; ++i) xs[i] = g(xs[i])\<close>, as the colour setters
  and the conversion of line widths to offsets run it.\<close>

function updateEach :: "('a \<Rightarrow> 'a) \<Rightarrow> nat \<Rightarrow> 'a list \<Rightarrow> 'a list" where
  "updateEach g i xs =
     (if i < length xs then updateEach g (Suc i) (xs[i := g (xs ! i)]) else xs)"
  by pat_completeness auto
termination
  by (relation "measure (\<lambda>(g, i, xs). length xs - i)") auto

declare updateEach.simps [simp del]

subsection \<open>\<open>Text::updateLineOffsets\<close>\<close>

record lineState =
  l_x :: real
  l_y :: real
  l_prevChar :: char32
  l_maxWidth :: real
  l_offsets :: "real list"

text \<open>One pass of the first loop of \<open>updateLineOffsets\<close>: kerning, then the switch on
  the code point (32 is the space, 9 the tab, 10 the newline).\<close>

definition measureStep :: "font \<Rightarrow> sfText \<Rightarrow> lineState \<Rightarrow> char32 \<Rightarrow> lineState" where
  "measureStep f t s curChar =
     (let sp = getSpacing f t;
          x1 = l_x s + getKerning f (l_prevChar s) curChar (m_characterSize t) (isBold t);
          s1 = s\<lparr>l_x := x1, l_prevChar := curChar\<rparr>
      in if curChar = 32 then s1\<lparr>l_x := x1 + whitespaceWidth sp\<rparr>
         else if curChar = 9 then s1\<lparr>l_x := x1 + whitespaceWidth sp * 4\<rparr>
         else if curChar = 10 then
           s1\<lparr>l_y := l_y s + lineSpacing sp,
              l_maxWidth := (if x1 > l_maxWidth s then x1 else l_maxWidth s),
              l_offsets := l_offsets s @ [x1],
              l_x := 0\<rparr>
         else s1\<lparr>l_x := x1 + advance (getGlyph f curChar (m_characterSize t) (isBold t) 0)
                              + letterSpacing sp\<rparr>)"

definition measureInit :: lineState where
  "measureInit = \<lparr>l_x = 0, l_y = 0, l_prevChar = 0, l_maxWidth = 0, l_offsets = []\<rparr>"

text \<open>The state after the first loop.\<close>

definition measureLines :: "font \<Rightarrow> sfText \<Rightarrow> lineState" where
  "measureLines f t = foldl (measureStep f t) measureInit (m_string t)"

text \<open>The body of the second loop: a width becomes an offset.\<close>

definition alignOffset :: "lineAlignment \<Rightarrow> real \<Rightarrow> real \<Rightarrow> real" where
  "alignOffset al maxWidth w =
     std_round (case al of
                  Right \<Rightarrow> maxWidth - w
                | Center \<Rightarrow> (maxWidth - w) / 2
                | Left \<Rightarrow> 0)"

definition updateLineOffsets :: "font \<Rightarrow> sfText \<Rightarrow> sfText" where
  "updateLineOffsets f t =
     (let s = measureLines f t;
          widths = l_offsets s @ [l_x s]
      in t\<lparr>m_lineOffsets :=
             updateEach (alignOffset (m_lineAlignment t) (l_maxWidth s)) 0 widths\<rparr>)"

subsection \<open>\<open>Text::findCharacterPos\<close>\<close>

record cursor =
  c_x :: real
  c_y :: real
  c_prevChar :: char32

definition posStep :: "font \<Rightarrow> sfText \<Rightarrow> cursor \<Rightarrow> char32 \<Rightarrow> cursor" where
  "posStep f t s curChar =
     (let sp = getSpacing f t;
          x1 = c_x s + getKerning f (c_prevChar s) curChar (m_characterSize t) (isBold t);
          s1 = s\<lparr>c_x := x1, c_prevChar := curChar\<rparr>
      in if curChar = 32 then s1\<lparr>c_x := x1 + whitespaceWidth sp\<rparr>
         else if curChar = 9 then s1\<lparr>c_x := x1 + whitespaceWidth sp * 4\<rparr>
         else if curChar = 10 then s1\<lparr>c_y := c_y s + lineSpacing sp, c_x := 0\<rparr>
         else s1\<lparr>c_x := x1 + advance (getGlyph f curChar (m_characterSize t) (isBold t) 0)
                              + letterSpacing sp\<rparr>)"

text \<open>The transform of the object is external: \<open>transformPoint\<close> stands for
  \<open>getTransform().transformPoint\<close>. The function also returns the object, whose
  mutable line-offset table it has recomputed. The loop reads \<open>m_string[i]\<close> for
  \<open>i < index\<close>, with \<open>index\<close> at most the length: these are the first \<open>index\<close> code
  points.\<close>

definition findCharacterPos ::
  "font \<Rightarrow> (vector2f \<Rightarrow> vector2f) \<Rightarrow> sfText \<Rightarrow> nat \<Rightarrow> error + (vector2f \<times> sfText)" where
  "findCharacterPos f transformPoint t index0 =
     (let index = (if index0 > length (m_string t) then length (m_string t) else index0);
          t1 = updateLineOffsets f t
      in case at_index (m_lineOffsets t1) 0 of
           Inl e \<Rightarrow> Inl e
         | Inr x0 \<Rightarrow>
             (let s = foldl (posStep f t1) \<lparr>c_x = x0, c_y = 0, c_prevChar = 0\<rparr>
                        (take index (m_string t1))
              in Inr (transformPoint (c_x s, c_y s), t1)))"

subsection \<open>The helpers \<open>addLine\<close> and \<open>addGlyphQuad\<close>\<close>

definition mkVertex :: "vector2f \<Rightarrow> color \<Rightarrow> vector2f \<Rightarrow> vertex" where
  "mkVertex p col tc = \<lparr>position = p, color = col, texCoords = tc\<rparr>"

definition addLine ::
  "vertex list \<Rightarrow> real \<Rightarrow> real \<Rightarrow> real \<Rightarrow> color \<Rightarrow> real \<Rightarrow> real \<Rightarrow> real \<Rightarrow> vertex list" where
  "addLine vertices lineLeft lineRight lineTop col offset thickness outlineThickness =
     (let top = std_floor (lineTop + offset - (thickness / 2) + 1 / 2);
          bottom = top + std_floor (thickness + 1 / 2)
      in vertices @
         [mkVertex (lineLeft - outlineThickness, top - outlineThickness) col (1, 1),
          mkVertex (lineRight + outlineThickness, top - outlineThickness) col (1, 1),
          mkVertex (lineLeft - outlineThickness, bottom + outlineThickness) col (1, 1),
          mkVertex (lineLeft - outlineThickness, bottom + outlineThickness) col (1, 1),
          mkVertex (lineRight + outlineThickness, top - outlineThickness) col (1, 1),
          mkVertex (lineRight + outlineThickness, bottom + outlineThickness) col (1, 1)])"

definition addGlyphQuad ::
  "vertex list \<Rightarrow> vector2f \<Rightarrow> color \<Rightarrow> glyph \<Rightarrow> real \<Rightarrow> vertex list" where
  "addGlyphQuad vertices pos col gl shear =
     (let padding = 1;
          left = rect_left (bounds gl) - padding;
          top = rect_top (bounds gl) - padding;
          right = rect_left (bounds gl) + rect_width (bounds gl) + padding;
          bottom = rect_top (bounds gl) + rect_height (bounds gl) + padding;
          u1 = real_of_int (irect_left (textureRect gl)) - padding;
          v1 = real_of_int (irect_top (textureRect gl)) - padding;
          u2 = real_of_int (irect_left (textureRect gl) + irect_width (textureRect gl)) + padding;
          v2 = real_of_int (irect_top (textureRect gl) + irect_height (textureRect gl)) + padding
      in vertices @
         [mkVertex (fst pos + left - shear * top, snd pos + top) col (u1, v1),
          mkVertex (fst pos + right - shear * top, snd pos + top) col (u2, v1),
          mkVertex (fst pos + left - shear * bottom, snd pos + bottom) col (u1, v2),
          mkVertex (fst pos + left - shear * bottom, snd pos + bottom) col (u1, v2),
          mkVertex (fst pos + right - shear * top, snd pos + top) col (u2, v1),
          mkVertex (fst pos + right - shear * bottom, snd pos + bottom) col (u2, v2)])"

subsection \<open>\<open>Text::ensureGeometryUpdate\<close>\<close>

record geomState =
  g_x :: real
  g_y :: real
  g_minX :: real
  g_minY :: real
  g_maxX :: real
  g_maxY :: real
  g_prevChar :: char32
  g_line :: nat
  g_horizontalOffset :: real
  g_vertices :: "vertex list"
  g_outlineVertices :: "vertex list"

definition underlineOffset :: "font \<Rightarrow> sfText \<Rightarrow> real" where
  "underlineOffset f t = getUnderlinePosition f (m_characterSize t)"

definition underlineThickness :: "font \<Rightarrow> sfText \<Rightarrow> real" where
  "underlineThickness f t = getUnderlineThickness f (m_characterSize t)"

text \<open>The vertical centre of the bounds of the glyph of \<open>x\<close> (code point 120).\<close>

definition strikeThroughOffset :: "font \<Rightarrow> sfText \<Rightarrow> real" where
  "strikeThroughOffset f t =
     (let b = bounds (getGlyph f 120 (m_characterSize t) (isBold t) 0)
      in rect_top b + rect_height b / 2)"

text \<open>The source draws a decoration line in four places, each time with the same two
  calls: \<open>addLine\<close> on the fill vertices and, when the outline thickness is not zero,
  \<open>addLine\<close> on the outline vertices with that thickness.\<close>

definition addDecoration :: "font \<Rightarrow> sfText \<Rightarrow> real \<Rightarrow> geomState \<Rightarrow> geomState" where
  "addDecoration f t offset s =
     s\<lparr>g_vertices :=
          addLine (g_vertices s) (g_horizontalOffset s) (g_x s) (g_y s) (m_fillColor t)
            offset (underlineThickness f t) 0,
       g_outlineVertices :=
          (if m_outlineThickness t \<noteq> 0
           then addLine (g_outlineVertices s) (g_horizontalOffset s) (g_x s) (g_y s)
                  (m_outlineColor t) offset (underlineThickness f t) (m_outlineThickness t)
           else g_outlineVertices s)\<rparr>"

text \<open>The branch of the loop body for space, tab and newline.\<close>

definition whitespaceStep :: "font \<Rightarrow> sfText \<Rightarrow> geomState \<Rightarrow> char32 \<Rightarrow> error + geomState" where
  "whitespaceStep f t s curChar =
     (let sp = getSpacing f t;
          s1 = s\<lparr>g_minX := min (g_minX s) (g_x s), g_minY := min (g_minY s) (g_y s)\<rparr>;
          r = (if curChar = 32 then Inr (s1\<lparr>g_x := g_x s1 + whitespaceWidth sp\<rparr>)
               else if curChar = 9 then Inr (s1\<lparr>g_x := g_x s1 + whitespaceWidth sp * 4\<rparr>)
               else if curChar = 10 then
                 (case at_index (m_lineOffsets t) (g_line s1 + 1) of
                    Inl e \<Rightarrow> Inl e
                  | Inr off \<Rightarrow>
                      Inr (s1\<lparr>g_y := g_y s1 + lineSpacing sp, g_line := g_line s1 + 1,
                              g_horizontalOffset := off, g_x := off\<rparr>))
               else Inr s1)
      in case r of
           Inl e \<Rightarrow> Inl e
         | Inr s2 \<Rightarrow>
             Inr (s2\<lparr>g_maxX := max (g_maxX s2) (g_x s2), g_maxY := max (g_maxY s2) (g_y s2)\<rparr>))"

text \<open>The rest of the loop body, for every other code point.\<close>

definition glyphStep :: "font \<Rightarrow> sfText \<Rightarrow> geomState \<Rightarrow> char32 \<Rightarrow> geomState" where
  "glyphStep f t s curChar =
     (let sp = getSpacing f t;
          s1 = (if m_outlineThickness t \<noteq> 0
                then s\<lparr>g_outlineVertices :=
                         addGlyphQuad (g_outlineVertices s) (g_x s, g_y s) (m_outlineColor t)
                           (getGlyph f curChar (m_characterSize t) (isBold t) (m_outlineThickness t))
                           (italicShear t)\<rparr>
                else s);
          gl = getGlyph f curChar (m_characterSize t) (isBold t) 0;
          s2 = s1\<lparr>g_vertices :=
                    addGlyphQuad (g_vertices s1) (g_x s1, g_y s1) (m_fillColor t) gl (italicShear t)\<rparr>;
          left = rect_left (bounds gl);
          top = rect_top (bounds gl);
          right = rect_left (bounds gl) + rect_width (bounds gl);
          bottom = rect_top (bounds gl) + rect_height (bounds gl)
      in s2\<lparr>g_minX := min (g_minX s2) (g_x s2 + left - italicShear t * bottom),
            g_maxX := max (g_maxX s2) (g_x s2 + right - italicShear t * top),
            g_minY := min (g_minY s2) (g_y s2 + top),
            g_maxY := max (g_maxY s2) (g_y s2 + bottom),
            g_x := g_x s2 + advance gl + letterSpacing sp\<rparr>)"

text \<open>The loop body; 13 is the carriage return.\<close>

definition geomStep :: "font \<Rightarrow> sfText \<Rightarrow> geomState \<Rightarrow> char32 \<Rightarrow> error + geomState" where
  "geomStep f t s curChar =
     (if curChar = 13 then Inr s
      else
        let s1 = s\<lparr>g_x := g_x s + getKerning f (g_prevChar s) curChar (m_characterSize t) (isBold t)\<rparr>;
            s2 = (if isUnderlined t \<and> (curChar = 10 \<and> g_prevChar s1 \<noteq> 10)
                  then addDecoration f t (underlineOffset f t) s1 else s1);
            s3 = (if isStrikeThrough t \<and> (curChar = 10 \<and> g_prevChar s2 \<noteq> 10)
                  then addDecoration f t (strikeThroughOffset f t) s2 else s2);
            s4 = s3\<lparr>g_prevChar := curChar\<rparr>
        in if curChar = 32 \<or> curChar = 10 \<or> curChar = 9
           then whitespaceStep f t s4 curChar
           else Inr (glyphStep f t s4 curChar))"

fun geomLoop :: "font \<Rightarrow> sfText \<Rightarrow> geomState \<Rightarrow> char32 list \<Rightarrow> error + geomState" where
  "geomLoop f t s [] = Inr s"
| "geomLoop f t s (curChar # rest) =
     (case geomStep f t s curChar of
        Inl e \<Rightarrow> Inl e
      | Inr s1 \<Rightarrow> geomLoop f t s1 rest)"

text \<open>What follows the loop: the outline margin of the bounds and the decoration of
  the last line.\<close>

definition geomFinish :: "font \<Rightarrow> sfText \<Rightarrow> geomState \<Rightarrow> geomState" where
  "geomFinish f t s =
     (let s1 = (if m_outlineThickness t \<noteq> 0
                then (let outline = \<bar>std_ceil (m_outlineThickness t)\<bar>
                      in s\<lparr>g_minX := g_minX s - outline, g_maxX := g_maxX s + outline,
                           g_minY := g_minY s - outline, g_maxY := g_maxY s + outline\<rparr>)
                else s);
          s2 = (if isUnderlined t \<and> g_x s1 > 0
                then addDecoration f t (underlineOffset f t) s1 else s1);
          s3 = (if isStrikeThrough t \<and> g_x s2 > 0
                then addDecoration f t (strikeThroughOffset f t) s2 else s2)
      in s3)"

text \<open>The first statements of the rebuild: the texture id of the font is saved, the
  geometry is marked as updated, the previous geometry is cleared.\<close>

definition clearGeometry :: "font \<Rightarrow> sfText \<Rightarrow> sfText" where
  "clearGeometry f t =
     t\<lparr>m_fontTextureId := getTextureCacheId f (m_characterSize t),
       m_geometryNeedUpdate := False,
       m_vertices := [],
       m_outlineVertices := [],
       m_bounds := \<lparr>rect_left = 0, rect_top = 0, rect_width = 0, rect_height = 0\<rparr>\<rparr>"

text \<open>The variables of the loop as they are initialised, \<open>x0\<close> being
  \<open>m_lineOffsets[0]\<close>. The loop appends to \<open>m_vertices\<close> and \<open>m_outlineVertices\<close>
  themselves.\<close>

definition geomInit :: "sfText \<Rightarrow> real \<Rightarrow> geomState" where
  "geomInit t x0 =
     \<lparr>g_x = x0, g_y = real (m_characterSize t),
      g_minX = real (m_characterSize t), g_minY = real (m_characterSize t),
      g_maxX = 0, g_maxY = 0, g_prevChar = 0, g_line = 0,
      g_horizontalOffset = x0,
      g_vertices = m_vertices t, g_outlineVertices = m_outlineVertices t\<rparr>"

text \<open>The object at the end of the rebuild: the two vertex arrays as the loop and the
  closing decorations left them, and the bounding rectangle.\<close>

definition geomResult :: "sfText \<Rightarrow> geomState \<Rightarrow> sfText" where
  "geomResult t s =
     t\<lparr>m_vertices := g_vertices s,
       m_outlineVertices := g_outlineVertices s,
       m_bounds := \<lparr>rect_left = g_minX s, rect_top = g_minY s,
                    rect_width = g_maxX s - g_minX s,
                    rect_height = g_maxY s - g_minY s\<rparr>\<rparr>"

text \<open>The body of \<open>ensureGeometryUpdate\<close> below its first test: the rebuild.\<close>

definition rebuildGeometry :: "font \<Rightarrow> sfText \<Rightarrow> error + sfText" where
  "rebuildGeometry f t =
     (let t1 = clearGeometry f t
      in if m_string t1 = [] then Inr t1
         else
           let t2 = updateLineOffsets f t1
           in case at_index (m_lineOffsets t2) 0 of
                Inl e \<Rightarrow> Inl e
              | Inr x0 \<Rightarrow>
                  (case geomLoop f t2 (geomInit t2 x0) (m_string t2) of
                     Inl e \<Rightarrow> Inl e
                   | Inr s \<Rightarrow> Inr (geomResult t2 (geomFinish f t2 s))))"

definition ensureGeometryUpdate :: "font \<Rightarrow> sfText \<Rightarrow> error + sfText" where
  "ensureGeometryUpdate f t =
     (if \<not> m_geometryNeedUpdate t \<and> getTextureCacheId f (m_characterSize t) = m_fontTextureId t
      then Inr t
      else rebuildGeometry f t)"

text \<open>\<open>Text::getLocalBounds\<close>: the bounds, and the object with its refreshed cache.\<close>

definition getLocalBounds :: "font \<Rightarrow> sfText \<Rightarrow> error + (floatRect \<times> sfText)" where
  "getLocalBounds f t =
     (case ensureGeometryUpdate f t of
        Inl e \<Rightarrow> Inl e
      | Inr t1 \<Rightarrow> Inr (m_bounds t1, t1))"

subsection \<open>The colour setters\<close>

definition setFillColor :: "color \<Rightarrow> sfText \<Rightarrow> sfText" where
  "setFillColor col t =
     (if col \<noteq> m_fillColor t
      then (let t1 = t\<lparr>m_fillColor := col\<rparr>
            in if \<not> m_geometryNeedUpdate t1
               then t1\<lparr>m_vertices :=
                         updateEach (\<lambda>v. v\<lparr>color := m_fillColor t1\<rparr>) 0 (m_vertices t1)\<rparr>
               else t1)
      else t)"

definition setOutlineColor :: "color \<Rightarrow> sfText \<Rightarrow> sfText" where
  "setOutlineColor col t =
     (if col \<noteq> m_outlineColor t
      then (let t1 = t\<lparr>m_outlineColor := col\<rparr>
            in if \<not> m_geometryNeedUpdate t1
               then t1\<lparr>m_outlineVertices :=
                         updateEach (\<lambda>v. v\<lparr>color := m_outlineColor t1\<rparr>) 0 (m_outlineVertices t1)\<rparr>
               else t1)
      else t)"

subsection \<open>The rectangle of a decoration line\<close>

text \<open>The six vertices that \<open>addLine\<close> appends for a fill line (outline thickness 0),
  given the snapped top and bottom: two triangles, all with texture coordinate \<open>(1, 1)\<close>.\<close>

definition lineRectangle :: "real \<Rightarrow> real \<Rightarrow> real \<Rightarrow> real \<Rightarrow> color \<Rightarrow> vertex list" where
  "lineRectangle xl xr yt yb col =
     [mkVertex (xl, yt) col (1, 1), mkVertex (xr, yt) col (1, 1), mkVertex (xl, yb) col (1, 1),
      mkVertex (xl, yb) col (1, 1), mkVertex (xr, yt) col (1, 1), mkVertex (xr, yb) col (1, 1)]"

subsection \<open>A test font and a freshly constructed text\<close>

text \<open>A monospace-like font: every glyph has advance 10, bounds \<open>(0, 0, 8, 10)\<close> and the
  same atlas rectangle; no kerning; line spacing 24; underline position 2 and thickness 1.
  With it every value computed below is an integer or a half of small magnitude, which
  \<open>float\<close> represents exactly.\<close>

definition testGlyph :: glyph where
  "testGlyph =
     \<lparr>advance = 10,
      bounds = \<lparr>rect_left = 0, rect_top = 0, rect_width = 8, rect_height = 10\<rparr>,
      textureRect = \<lparr>irect_left = 0, irect_top = 0, irect_width = 8, irect_height = 10\<rparr>\<rparr>"

definition testFont :: font where
  "testFont =
     \<lparr>getGlyph = (\<lambda>c sz b ot. testGlyph),
      getKerning = (\<lambda>p c sz b. 0),
      getLineSpacing = (\<lambda>sz. 24),
      getUnderlinePosition = (\<lambda>sz. 2),
      getUnderlineThickness = (\<lambda>sz. 1),
      getTextureCacheId = (\<lambda>sz. 7)\<rparr>"

definition white :: color where
  "white = \<lparr>red = 255, green = 255, blue = 255, alpha = 255\<rparr>"

definition black :: color where
  "black = \<lparr>red = 0, green = 0, blue = 0, alpha = 255\<rparr>"

text \<open>The object as the constructor leaves it, with character size 20 and the given
  string, alignment and style.\<close>

definition newText :: "char32 list \<Rightarrow> lineAlignment \<Rightarrow> 32 word \<Rightarrow> sfText" where
  "newText str al st =
     \<lparr>m_string = str, m_characterSize = 20, m_letterSpacingFactor = 1,
      m_lineSpacingFactor = 1, m_style = st, m_fillColor = white, m_outlineColor = black,
      m_outlineThickness = 0, m_lineAlignment = al, m_vertices = [], m_outlineVertices = [],
      m_bounds = \<lparr>rect_left = 0, rect_top = 0, rect_width = 0, rect_height = 0\<rparr>,
      m_geometryNeedUpdate = True, m_fontTextureId = 0, m_lineOffsets = []\<rparr>"

text \<open>A third colour, and the object that a rebuild of the string \<open>A\<close> with outline
  thickness 1 leaves behind (fill and outline quad, geometry up to date).\<close>

definition grey :: color where
  "grey = \<lparr>red = 128, green = 128, blue = 128, alpha = 255\<rparr>"

definition testQuad :: "color \<Rightarrow> vertex list" where
  "testQuad col =
     [mkVertex (- 1, 19) col (- 1, - 1), mkVertex (9, 19) col (9, - 1),
      mkVertex (- 1, 31) col (- 1, 11), mkVertex (- 1, 31) col (- 1, 11),
      mkVertex (9, 19) col (9, - 1), mkVertex (9, 31) col (9, 11)]"

definition paintedText :: sfText where
  "paintedText =
     (newText [65] Left 0)
       \<lparr>m_outlineThickness := 1,
        m_vertices := testQuad white,
        m_outlineVertices := testQuad black,
        m_bounds := \<lparr>rect_left = - 1, rect_top = 19, rect_width = 10, rect_height = 12\<rparr>,
        m_geometryNeedUpdate := False,
        m_fontTextureId := 7,
        m_lineOffsets := [0]\<rparr>"

section \<open>Auxiliary facts\<close>

lemma updateEach_take_drop:
  "i \<le> length xs \<Longrightarrow> updateEach g i xs = take i xs @ map g (drop i xs)"
proof (induction g i xs rule: updateEach.induct)
  case (1 g i xs)
  show ?case
  proof (cases "i < length xs")
    case True
    then have "updateEach g i xs = updateEach g (Suc i) (xs[i := g (xs ! i)])"
      by (subst updateEach.simps) simp
    also have "\<dots> = take (Suc i) (xs[i := g (xs ! i)]) @ map g (drop (Suc i) (xs[i := g (xs ! i)]))"
      using True by (intro "1.IH") simp_all
    also have "\<dots> = take i xs @ map g (drop i xs)"
      using True by (simp add: take_Suc_conv_app_nth Cons_nth_drop_Suc [symmetric])
    finally show ?thesis .
  next
    case False
    with "1.prems" have "i = length xs" by simp
    then show ?thesis by (subst updateEach.simps) simp
  qed
qed

lemma updateEach_map: "updateEach g 0 xs = map g xs"
  by (simp add: updateEach_take_drop)

lemma measure_offsets_length:
  "length (l_offsets (foldl (measureStep f t) s cs)) =
     length (l_offsets s) + length (filter (\<lambda>c. c = 10) cs)"
proof (induction cs arbitrary: s)
  case Nil
  show ?case by simp
next
  case (Cons c cs)
  have "length (l_offsets (measureStep f t s c)) = length (l_offsets s) + (if c = 10 then 1 else 0)"
    by (simp add: measureStep_def Let_def)
  with Cons.IH [of "measureStep f t s c"] show ?case by simp
qed

lemma lineOffsets_length:
  "length (m_lineOffsets (updateLineOffsets f t)) =
     Suc (length (filter (\<lambda>c. c = 10) (m_string t)))"
  by (simp add: updateLineOffsets_def Let_def updateEach_map measureLines_def
      measure_offsets_length measureInit_def)

lemma updateLineOffsets_fields:
  "m_string (updateLineOffsets f t) = m_string t"
  "m_characterSize (updateLineOffsets f t) = m_characterSize t"
  "m_style (updateLineOffsets f t) = m_style t"
  "m_outlineThickness (updateLineOffsets f t) = m_outlineThickness t"
  "m_vertices (updateLineOffsets f t) = m_vertices t"
  "m_outlineVertices (updateLineOffsets f t) = m_outlineVertices t"
  "m_geometryNeedUpdate (updateLineOffsets f t) = m_geometryNeedUpdate t"
  "m_fontTextureId (updateLineOffsets f t) = m_fontTextureId t"
  "m_fillColor (updateLineOffsets f t) = m_fillColor t"
  "m_outlineColor (updateLineOffsets f t) = m_outlineColor t"
  "m_lineAlignment (updateLineOffsets f t) = m_lineAlignment t"
  "m_letterSpacingFactor (updateLineOffsets f t) = m_letterSpacingFactor t"
  "m_lineSpacingFactor (updateLineOffsets f t) = m_lineSpacingFactor t"
  by (simp_all add: updateLineOffsets_def Let_def)

lemma geomStep_total:
  assumes "g_line s + (if c = 10 then 1 else 0) < length (m_lineOffsets t)"
  shows "\<exists>s1. geomStep f t s c = Inr s1 \<and> g_line s1 = g_line s + (if c = 10 then 1 else 0)"
  using assms
  by (cases "c = 10")
     (auto simp: geomStep_def whitespaceStep_def glyphStep_def addDecoration_def Let_def at_index_def)

lemma geomLoop_total:
  "g_line s + length (filter (\<lambda>c. c = 10) cs) < length (m_lineOffsets t)
   \<Longrightarrow> \<exists>s1. geomLoop f t s cs = Inr s1"
proof (induction cs arbitrary: s)
  case Nil
  show ?case by simp
next
  case (Cons c cs)
  from Cons.prems have "g_line s + (if c = 10 then 1 else 0) < length (m_lineOffsets t)"
    by (simp split: if_splits)
  from geomStep_total [OF this] obtain s1 where
    s1: "geomStep f t s c = Inr s1" "g_line s1 = g_line s + (if c = 10 then 1 else 0)"
    by blast
  from Cons.prems s1(2) have "g_line s1 + length (filter (\<lambda>c. c = 10) cs) < length (m_lineOffsets t)"
    by (simp split: if_splits)
  from Cons.IH [OF this] s1(1) show ?case by simp
qed

text \<open>On a non-empty string the rebuild runs the loop to its end and stores its result.\<close>

lemma rebuildGeometry_nonempty:
  assumes "m_string t \<noteq> []"
  shows "\<exists>s. geomLoop f (updateLineOffsets f (clearGeometry f t))
                (geomInit (updateLineOffsets f (clearGeometry f t))
                   (m_lineOffsets (updateLineOffsets f (clearGeometry f t)) ! 0))
                (m_string t) = Inr s
            \<and> rebuildGeometry f t =
                Inr (geomResult (updateLineOffsets f (clearGeometry f t))
                       (geomFinish f (updateLineOffsets f (clearGeometry f t)) s))"
proof -
  define t2 where "t2 = updateLineOffsets f (clearGeometry f t)"
  define x0 where "x0 = m_lineOffsets t2 ! 0"
  have str: "m_string t2 = m_string t" "m_string (clearGeometry f t) = m_string t"
    by (simp_all add: t2_def updateLineOffsets_fields clearGeometry_def)
  have len: "length (m_lineOffsets t2) = Suc (length (filter (\<lambda>c. c = 10) (m_string t)))"
    by (simp add: t2_def lineOffsets_length clearGeometry_def)
  then have at0: "at_index (m_lineOffsets t2) 0 = Inr x0"
    by (simp add: at_index_def x0_def)
  have "g_line (geomInit t2 x0) + length (filter (\<lambda>c. c = 10) (m_string t))
          < length (m_lineOffsets t2)"
    by (simp add: len geomInit_def)
  from geomLoop_total [OF this] obtain s
    where s: "geomLoop f t2 (geomInit t2 x0) (m_string t) = Inr s"
    by blast
  have "rebuildGeometry f t = Inr (geomResult t2 (geomFinish f t2 s))"
    using assms at0 s str
    by (simp add: rebuildGeometry_def Let_def t2_def [symmetric])
  with s show ?thesis
    unfolding t2_def x0_def by blast
qed

lemma clearGeometry_fields:
  "m_string (clearGeometry f t) = m_string t"
  "m_characterSize (clearGeometry f t) = m_characterSize t"
  "m_style (clearGeometry f t) = m_style t"
  "m_outlineThickness (clearGeometry f t) = m_outlineThickness t"
  "m_vertices (clearGeometry f t) = []"
  "m_outlineVertices (clearGeometry f t) = []"
  "m_geometryNeedUpdate (clearGeometry f t) = False"
  "m_fontTextureId (clearGeometry f t) = getTextureCacheId f (m_characterSize t)"
  "m_fillColor (clearGeometry f t) = m_fillColor t"
  "m_outlineColor (clearGeometry f t) = m_outlineColor t"
  "m_lineAlignment (clearGeometry f t) = m_lineAlignment t"
  "m_letterSpacingFactor (clearGeometry f t) = m_letterSpacingFactor t"
  "m_lineSpacingFactor (clearGeometry f t) = m_lineSpacingFactor t"
  by (simp_all add: clearGeometry_def)

lemma rebuildGeometry_total:
  "\<exists>t1. rebuildGeometry f t = Inr t1 \<and> \<not> m_geometryNeedUpdate t1
        \<and> m_fontTextureId t1 = getTextureCacheId f (m_characterSize t)
        \<and> m_characterSize t1 = m_characterSize t"
proof (cases "m_string t = []")
  case True
  then show ?thesis
    by (simp add: rebuildGeometry_def clearGeometry_fields)
next
  case False
  from rebuildGeometry_nonempty [OF this, of f] show ?thesis
    by (auto simp: geomResult_def updateLineOffsets_fields clearGeometry_fields)
qed

lemma geomStep_count:
  assumes "\<not> isUnderlined t" "\<not> isStrikeThrough t" "geomStep f t s c = Inr s1"
  shows "length (g_vertices s1) =
           length (g_vertices s) + (if c \<noteq> 32 \<and> c \<noteq> 9 \<and> c \<noteq> 10 \<and> c \<noteq> 13 then 6 else 0)"
    and "length (g_outlineVertices s1) =
           length (g_outlineVertices s)
           + (if c \<noteq> 32 \<and> c \<noteq> 9 \<and> c \<noteq> 10 \<and> c \<noteq> 13 \<and> m_outlineThickness t \<noteq> 0 then 6 else 0)"
  using assms
  by (auto simp: geomStep_def whitespaceStep_def glyphStep_def Let_def addGlyphQuad_def
      split: if_splits sum.splits)

lemma geomLoop_count:
  assumes "\<not> isUnderlined t" "\<not> isStrikeThrough t"
  shows "geomLoop f t s cs = Inr s1 \<Longrightarrow>
         length (g_vertices s1) =
           length (g_vertices s)
           + 6 * length (filter (\<lambda>c. c \<noteq> 32 \<and> c \<noteq> 9 \<and> c \<noteq> 10 \<and> c \<noteq> 13) cs)
         \<and> length (g_outlineVertices s1) =
           length (g_outlineVertices s)
           + (if m_outlineThickness t \<noteq> 0
              then 6 * length (filter (\<lambda>c. c \<noteq> 32 \<and> c \<noteq> 9 \<and> c \<noteq> 10 \<and> c \<noteq> 13) cs) else 0)"
proof (induction cs arbitrary: s)
  case Nil
  then show ?case by simp
next
  case (Cons c cs)
  from Cons.prems obtain s2 where s2: "geomStep f t s c = Inr s2" "geomLoop f t s2 cs = Inr s1"
    by (auto split: sum.splits)
  from geomStep_count [OF assms s2(1)] Cons.IH [OF s2(2)] show ?case
    by (simp split: if_splits)
qed

lemma geomFinish_plain:
  assumes "\<not> isUnderlined t" "\<not> isStrikeThrough t"
  shows "g_vertices (geomFinish f t s) = g_vertices s"
    and "g_outlineVertices (geomFinish f t s) = g_outlineVertices s"
  using assms by (simp_all add: geomFinish_def Let_def)

lemma measureStep_clear: "measureStep f (clearGeometry f t) = measureStep f t"
  by (intro ext) (simp add: measureStep_def getSpacing_def isBold_def clearGeometry_def Let_def)

lemma lineOffsets_clear:
  "m_lineOffsets (updateLineOffsets f (clearGeometry f t)) = m_lineOffsets (updateLineOffsets f t)"
  by (simp add: updateLineOffsets_def measureLines_def measureStep_clear Let_def clearGeometry_fields)

lemma addGlyphQuad_append:
  "addGlyphQuad vs p col gl sh = vs @ addGlyphQuad [] p col gl sh"
  by (simp add: addGlyphQuad_def Let_def)

lemma geomStep_glyph:
  assumes "c \<noteq> 13" "c \<noteq> 32" "c \<noteq> 10" "c \<noteq> 9"
  shows "geomStep f t s c =
           Inr (glyphStep f t
                  (s\<lparr>g_x := g_x s + getKerning f (g_prevChar s) c (m_characterSize t) (isBold t),
                     g_prevChar := c\<rparr>) c)"
  using assms by (simp add: geomStep_def Let_def)

lemma glyphStep_fields:
  "g_vertices (glyphStep f t s c) =
     addGlyphQuad (g_vertices s) (g_x s, g_y s) (m_fillColor t)
       (getGlyph f c (m_characterSize t) (isBold t) 0) (italicShear t)"
  "g_x (glyphStep f t s c) =
     g_x s + advance (getGlyph f c (m_characterSize t) (isBold t) 0) + letterSpacing (getSpacing f t)"
  "g_y (glyphStep f t s c) = g_y s"
  "g_prevChar (glyphStep f t s c) = g_prevChar s"
  "g_line (glyphStep f t s c) = g_line s"
  "g_horizontalOffset (glyphStep f t s c) = g_horizontalOffset s"
  by (simp_all add: glyphStep_def Let_def)

text \<open>A decoration line drawn by \<open>addDecoration\<close>, as the list of its fill vertices.\<close>

lemma addLine_rect_append:
  "addLine vs xl xr y col off th 0 =
     vs @ lineRectangle xl xr (std_floor (y + off - th / 2 + 1 / 2))
            (std_floor (y + off - th / 2 + 1 / 2) + std_floor (th + 1 / 2)) col"
  by (simp add: addLine_def lineRectangle_def Let_def)

lemma addDecoration_fields:
  "g_vertices (addDecoration f t off s) =
     g_vertices s @
     lineRectangle (g_horizontalOffset s) (g_x s)
       (std_floor (g_y s + off - underlineThickness f t / 2 + 1 / 2))
       (std_floor (g_y s + off - underlineThickness f t / 2 + 1 / 2)
          + std_floor (underlineThickness f t + 1 / 2))
       (m_fillColor t)"
  "g_x (addDecoration f t off s) = g_x s"
  "g_y (addDecoration f t off s) = g_y s"
  "g_prevChar (addDecoration f t off s) = g_prevChar s"
  "g_line (addDecoration f t off s) = g_line s"
  "g_horizontalOffset (addDecoration f t off s) = g_horizontalOffset s"
  by (simp_all add: addDecoration_def addLine_rect_append)

lemma geomStep_newline:
  assumes "g_prevChar s \<noteq> 10"
    and "at_index (m_lineOffsets t) (Suc (g_line s)) = Inr off"
  shows "\<exists>s1. geomStep f t s 10 = Inr s1
           \<and> g_vertices s1 =
               g_vertices s
               @ (if isUnderlined t
                  then lineRectangle (g_horizontalOffset s)
                         (g_x s + getKerning f (g_prevChar s) 10 (m_characterSize t) (isBold t))
                         (std_floor (g_y s + underlineOffset f t - underlineThickness f t / 2 + 1 / 2))
                         (std_floor (g_y s + underlineOffset f t - underlineThickness f t / 2 + 1 / 2)
                            + std_floor (underlineThickness f t + 1 / 2))
                         (m_fillColor t)
                  else [])
               @ (if isStrikeThrough t
                  then lineRectangle (g_horizontalOffset s)
                         (g_x s + getKerning f (g_prevChar s) 10 (m_characterSize t) (isBold t))
                         (std_floor (g_y s + strikeThroughOffset f t - underlineThickness f t / 2 + 1 / 2))
                         (std_floor (g_y s + strikeThroughOffset f t - underlineThickness f t / 2 + 1 / 2)
                            + std_floor (underlineThickness f t + 1 / 2))
                         (m_fillColor t)
                  else [])
           \<and> g_x s1 = off \<and> g_y s1 = g_y s + lineSpacing (getSpacing f t)
           \<and> g_horizontalOffset s1 = off \<and> g_prevChar s1 = 10 \<and> g_line s1 = Suc (g_line s)"
  using assms
  by (simp add: geomStep_def whitespaceStep_def addDecoration_fields Let_def)

lemma geomFinish_fields:
  "g_vertices (geomFinish f t s) =
     g_vertices s
     @ (if isUnderlined t \<and> 0 < g_x s
        then lineRectangle (g_horizontalOffset s) (g_x s)
               (std_floor (g_y s + underlineOffset f t - underlineThickness f t / 2 + 1 / 2))
               (std_floor (g_y s + underlineOffset f t - underlineThickness f t / 2 + 1 / 2)
                  + std_floor (underlineThickness f t + 1 / 2))
               (m_fillColor t)
        else [])
     @ (if isStrikeThrough t \<and> 0 < g_x s
        then lineRectangle (g_horizontalOffset s) (g_x s)
               (std_floor (g_y s + strikeThroughOffset f t - underlineThickness f t / 2 + 1 / 2))
               (std_floor (g_y s + strikeThroughOffset f t - underlineThickness f t / 2 + 1 / 2)
                  + std_floor (underlineThickness f t + 1 / 2))
               (m_fillColor t)
        else [])"
  by (simp add: geomFinish_def addDecoration_fields Let_def)

lemma newText_fields:
  "m_string (newText str al sty) = str"
  "m_characterSize (newText str al sty) = 20"
  "m_letterSpacingFactor (newText str al sty) = 1"
  "m_lineSpacingFactor (newText str al sty) = 1"
  "m_style (newText str al sty) = sty"
  "m_fillColor (newText str al sty) = white"
  "m_outlineColor (newText str al sty) = black"
  "m_outlineThickness (newText str al sty) = 0"
  "m_lineAlignment (newText str al sty) = al"
  "m_geometryNeedUpdate (newText str al sty)"
  "m_fontTextureId (newText str al sty) = 0"
  by (simp_all add: newText_def)

lemma lineOffsets_Left_first:
  assumes "m_lineAlignment t = Left"
  shows "m_lineOffsets (updateLineOffsets f t) ! 0 = 0"
proof -
  have "map (alignOffset Left mw) (ws @ [w]) ! 0 = 0" for mw ws w
    by (subst nth_map) (simp_all add: alignOffset_def std_round_def)
  then show ?thesis
    using assms by (simp add: updateLineOffsets_def Let_def updateEach_map)
qed

section \<open>The claims\<close>

text \<open>
  C1. The position query and the geometry builder are to advance the cursor by the same
  rules; at a newline the cursor column is to become the entry of the next line in the
  line-offset table. The geometry builder does so, \<open>findCharacterPos\<close> does not: its
  newline case sets the column to 0 whatever the table holds. For the centred string
  \<open>AA\<close>, newline, \<open>B\<close> in the test font the table is \<open>[0, 5]\<close>, the quad of \<open>B\<close>
  is built at column 5 (its padded left edge is 4), and the position of index 3 is
  reported at column 0.
\<close>

theorem findCharacterPos_newline_column:
  "c_x (posStep f t s 10) = 0
   \<and> m_lineOffsets (updateLineOffsets testFont (newText [65, 65, 10, 66] Center 0)) = [0, 5]
   \<and> map_sum id fst (findCharacterPos testFont id (newText [65, 65, 10, 66] Center 0) 3)
       = Inr (0, 24)
   \<and> map_sum id (map position \<circ> drop 12 \<circ> m_vertices)
        (ensureGeometryUpdate testFont (newText [65, 65, 10, 66] Center 0))
       = Inr [(4, 43), (14, 43), (4, 55), (4, 55), (14, 43), (14, 55)]"
proof -
  have "c_x (posStep f t s 10) = 0"
    by (simp add: posStep_def Let_def)
  moreover have "m_lineOffsets (updateLineOffsets testFont (newText [65, 65, 10, 66] Center 0)) = [0, 5]"
    by code_simp
  moreover have "map_sum id fst (findCharacterPos testFont id (newText [65, 65, 10, 66] Center 0) 3)
       = Inr (0, 24)"
    by code_simp
  moreover have "map_sum id (map position \<circ> drop 12 \<circ> m_vertices)
        (ensureGeometryUpdate testFont (newText [65, 65, 10, 66] Center 0))
       = Inr [(4, 43), (14, 43), (4, 55), (4, 55), (14, 43), (14, 55)]"
    by code_simp
  ultimately show ?thesis by blast
qed

text \<open>
  C2. \<open>ensureGeometryUpdate\<close> rebuilds if and only if the dirty flag is set or the cached
  texture id differs from the id of the font's texture for the character size: in that
  case it runs the rebuild and the object changes, otherwise the object is returned as it
  is. The call always returns; a second call on its result, with a font whose texture id
  for that size is the same, returns the object unchanged (the same fill vertices, outline
  vertices and bounds), and so does \<open>getLocalBounds\<close>.
\<close>

theorem cache_gate:
  "(m_geometryNeedUpdate t \<or> getTextureCacheId f (m_characterSize t) \<noteq> m_fontTextureId t
      \<longrightarrow> ensureGeometryUpdate f t = rebuildGeometry f t \<and> ensureGeometryUpdate f t \<noteq> Inr t)
   \<and> (\<not> (m_geometryNeedUpdate t \<or> getTextureCacheId f (m_characterSize t) \<noteq> m_fontTextureId t)
      \<longrightarrow> ensureGeometryUpdate f t = Inr t)
   \<and> (\<exists>t1. ensureGeometryUpdate f t = Inr t1
         \<and> (\<forall>f'. getTextureCacheId f' (m_characterSize t1) = getTextureCacheId f (m_characterSize t)
               \<longrightarrow> ensureGeometryUpdate f' t1 = Inr t1
                   \<and> getLocalBounds f' t1 = Inr (m_bounds t1, t1)))"
proof -
  obtain t1 where t1: "rebuildGeometry f t = Inr t1" "\<not> m_geometryNeedUpdate t1"
      "m_fontTextureId t1 = getTextureCacheId f (m_characterSize t)"
      "m_characterSize t1 = m_characterSize t"
    using rebuildGeometry_total [of f t] by blast
  show ?thesis
  proof (cases "m_geometryNeedUpdate t \<or> getTextureCacheId f (m_characterSize t) \<noteq> m_fontTextureId t")
    case True
    then have e: "ensureGeometryUpdate f t = Inr t1"
      using t1(1) by (auto simp: ensureGeometryUpdate_def)
    from True t1 have "t1 \<noteq> t" by auto
    with e t1 True show ?thesis
      by (auto simp: ensureGeometryUpdate_def getLocalBounds_def)
  next
    case False
    then show ?thesis
      by (auto simp: ensureGeometryUpdate_def getLocalBounds_def)
  qed
qed

theorem cache_gate_witness:
  "m_geometryNeedUpdate (newText [65] Left 0)
   \<and> ensureGeometryUpdate testFont (newText [65] Left 0) \<noteq> Inr (newText [65] Left 0)
   \<and> \<not> m_geometryNeedUpdate (clearGeometry testFont (newText [] Left 0))
   \<and> getTextureCacheId testFont (m_characterSize (clearGeometry testFont (newText [] Left 0)))
       = m_fontTextureId (clearGeometry testFont (newText [] Left 0))
   \<and> ensureGeometryUpdate testFont (clearGeometry testFont (newText [] Left 0))
       = Inr (clearGeometry testFont (newText [] Left 0))
   \<and> (case ensureGeometryUpdate testFont (newText [65] Left 0) of
         Inl e \<Rightarrow> False
       | Inr t1 \<Rightarrow> ensureGeometryUpdate testFont t1 = Inr t1
                   \<and> getLocalBounds testFont t1 = Inr (m_bounds t1, t1))"
proof -
  have d: "m_geometryNeedUpdate (newText [65] Left 0)"
    by (simp add: newText_def)
  have c: "\<not> m_geometryNeedUpdate (clearGeometry testFont (newText [] Left 0))"
    "getTextureCacheId testFont (m_characterSize (clearGeometry testFont (newText [] Left 0)))
       = m_fontTextureId (clearGeometry testFont (newText [] Left 0))"
    by (simp_all add: clearGeometry_def)
  from cache_gate [of "newText [65] Left 0" testFont] d
  have 1: "ensureGeometryUpdate testFont (newText [65] Left 0) \<noteq> Inr (newText [65] Left 0)"
    by blast
  from cache_gate [of "clearGeometry testFont (newText [] Left 0)" testFont] c
  have 2: "ensureGeometryUpdate testFont (clearGeometry testFont (newText [] Left 0))
       = Inr (clearGeometry testFont (newText [] Left 0))"
    by blast
  from cache_gate [of "newText [65] Left 0" testFont]
  obtain t1 where t1: "ensureGeometryUpdate testFont (newText [65] Left 0) = Inr t1"
    "\<forall>f'. getTextureCacheId f' (m_characterSize t1)
            = getTextureCacheId testFont (m_characterSize (newText [65] Left 0))
          \<longrightarrow> ensureGeometryUpdate f' t1 = Inr t1
              \<and> getLocalBounds f' t1 = Inr (m_bounds t1, t1)"
    by blast
  have "getTextureCacheId testFont (m_characterSize t1)
            = getTextureCacheId testFont (m_characterSize (newText [65] Left 0))"
    by (simp add: testFont_def)
  with t1(2) have 3: "ensureGeometryUpdate testFont t1 = Inr t1
              \<and> getLocalBounds testFont t1 = Inr (m_bounds t1, t1)"
    by blast
  from d c 1 2 3 t1(1) show ?thesis by simp
qed

text \<open>
  C3. Under right or centre alignment every offset is to be
  \<open>round((maxWidth - width) * k)\<close> with \<open>maxWidth\<close> the greatest width of all lines,
  the last one included. \<open>updateLineOffsets\<close> raises its \<open>maxWidth\<close> only where it meets
  a newline, so the width of the last line never enters it. For \<open>A\<close>, newline, \<open>BB\<close>
  in the test font the widths are 10 and 20, \<open>maxWidth\<close> is 10, and the offsets are
  \<open>[0, -10]\<close> (right) and \<open>[0, -5]\<close> (centre) where the greatest width 20 gives
  \<open>[10, 0]\<close> and \<open>[5, 0]\<close>; a single right-aligned line \<open>A\<close> gets the offset \<open>-10\<close>.
\<close>

theorem lineOffsets_last_line_unmeasured:
  "l_offsets (measureLines testFont (newText [65, 10, 66, 66] Right 0))
     @ [l_x (measureLines testFont (newText [65, 10, 66, 66] Right 0))] = [10, 20]
   \<and> l_maxWidth (measureLines testFont (newText [65, 10, 66, 66] Right 0)) = 10
   \<and> m_lineOffsets (updateLineOffsets testFont (newText [65, 10, 66, 66] Right 0)) = [0, - 10]
   \<and> m_lineOffsets (updateLineOffsets testFont (newText [65, 10, 66, 66] Center 0)) = [0, - 5]
   \<and> m_lineOffsets (updateLineOffsets testFont (newText [65] Right 0)) = [- 10]"
  by code_simp

text \<open>
  C4. A carriage return is to be transparent in the geometry pass, the line-metrics pass
  and the position query. The geometry loop skips it (its state is unchanged, for every
  font, object and state). The other two passes have no such case: they treat it as
  any other code point, adding kerning and the advance of its glyph and recording it as
  the previous code point. In the test font the line-metrics pass measures the line
  \<open>A\<close>, carriage return as 20 wide, and the position after a lone carriage return is
  column 10, while the geometry builds no vertex for it.
\<close>

theorem carriage_return_measured:
  "geomStep f t s 13 = Inr s
   \<and> l_x (measureStep testFont (newText [13] Left 0) measureInit 13) = 10
   \<and> l_prevChar (measureStep testFont (newText [13] Left 0) measureInit 13) = 13
   \<and> l_offsets (measureLines testFont (newText [65, 13, 10, 65, 65] Left 0)) = [20]
   \<and> map_sum id fst (findCharacterPos testFont id (newText [13] Left 0) 1) = Inr (10, 0)
   \<and> map_sum id (map position \<circ> m_vertices)
        (ensureGeometryUpdate testFont (newText [13] Left 0)) = Inr []"
proof -
  have "geomStep f t s 13 = Inr s"
    by (simp add: geomStep_def)
  moreover have "l_x (measureStep testFont (newText [13] Left 0) measureInit 13) = 10
   \<and> l_prevChar (measureStep testFont (newText [13] Left 0) measureInit 13) = 13
   \<and> l_offsets (measureLines testFont (newText [65, 13, 10, 65, 65] Left 0)) = [20]
   \<and> map_sum id fst (findCharacterPos testFont id (newText [13] Left 0) 1) = Inr (10, 0)
   \<and> map_sum id (map position \<circ> m_vertices)
        (ensureGeometryUpdate testFont (newText [13] Left 0)) = Inr []"
    by code_simp
  ultimately show ?thesis by blast
qed

text \<open>
  C5. With the dirty flag clear, \<open>setFillColor\<close> with a colour other than the current fill
  colour gives every vertex of the fill array the new colour and changes nothing else but
  the fill colour itself: positions, texture coordinates, number and order of the
  vertices, the bounds, the dirty flag and the cached texture id stay as they are. The same
  holds for \<open>setOutlineColor\<close> and the outline array.
\<close>

theorem setColor_repaints:
  assumes "\<not> m_geometryNeedUpdate t"
  shows "(col \<noteq> m_fillColor t \<longrightarrow>
           setFillColor col t =
             t\<lparr>m_fillColor := col, m_vertices := map (\<lambda>v. v\<lparr>color := col\<rparr>) (m_vertices t)\<rparr>
           \<and> length (m_vertices (setFillColor col t)) = length (m_vertices t)
           \<and> map position (m_vertices (setFillColor col t)) = map position (m_vertices t)
           \<and> map texCoords (m_vertices (setFillColor col t)) = map texCoords (m_vertices t)
           \<and> (\<forall>v \<in> set (m_vertices (setFillColor col t)). color v = col)
           \<and> m_bounds (setFillColor col t) = m_bounds t
           \<and> \<not> m_geometryNeedUpdate (setFillColor col t)
           \<and> m_fontTextureId (setFillColor col t) = m_fontTextureId t)
       \<and> (col \<noteq> m_outlineColor t \<longrightarrow>
           setOutlineColor col t =
             t\<lparr>m_outlineColor := col,
               m_outlineVertices := map (\<lambda>v. v\<lparr>color := col\<rparr>) (m_outlineVertices t)\<rparr>
           \<and> length (m_outlineVertices (setOutlineColor col t)) = length (m_outlineVertices t)
           \<and> map position (m_outlineVertices (setOutlineColor col t)) = map position (m_outlineVertices t)
           \<and> map texCoords (m_outlineVertices (setOutlineColor col t)) = map texCoords (m_outlineVertices t)
           \<and> (\<forall>v \<in> set (m_outlineVertices (setOutlineColor col t)). color v = col)
           \<and> m_bounds (setOutlineColor col t) = m_bounds t
           \<and> \<not> m_geometryNeedUpdate (setOutlineColor col t)
           \<and> m_fontTextureId (setOutlineColor col t) = m_fontTextureId t)"
  using assms by (simp add: setFillColor_def setOutlineColor_def Let_def updateEach_map comp_def)

theorem setColor_repaints_witness:
  "ensureGeometryUpdate testFont ((newText [65] Left 0)\<lparr>m_outlineThickness := 1\<rparr>) = Inr paintedText
   \<and> \<not> m_geometryNeedUpdate paintedText
   \<and> grey \<noteq> m_fillColor paintedText \<and> grey \<noteq> m_outlineColor paintedText
   \<and> m_vertices (setFillColor grey paintedText) = testQuad grey
   \<and> m_outlineVertices (setFillColor grey paintedText) = testQuad black
   \<and> m_outlineVertices (setOutlineColor grey paintedText) = testQuad grey
   \<and> m_vertices (setOutlineColor grey paintedText) = testQuad white
   \<and> m_bounds (setFillColor grey paintedText) = m_bounds paintedText
   \<and> m_bounds (setOutlineColor grey paintedText) = m_bounds paintedText"
proof -
  have r: "ensureGeometryUpdate testFont ((newText [65] Left 0)\<lparr>m_outlineThickness := 1\<rparr>)
             = Inr paintedText"
    by code_simp
  have h: "\<not> m_geometryNeedUpdate paintedText"
    by (simp add: paintedText_def)
  have c: "grey \<noteq> m_fillColor paintedText" "grey \<noteq> m_outlineColor paintedText"
    by (simp_all add: paintedText_def newText_def grey_def white_def black_def)
  from setColor_repaints [OF h, of grey] c
  have "setFillColor grey paintedText =
          paintedText\<lparr>m_fillColor := grey,
            m_vertices := map (\<lambda>v. v\<lparr>color := grey\<rparr>) (m_vertices paintedText)\<rparr>"
    and "setOutlineColor grey paintedText =
          paintedText\<lparr>m_outlineColor := grey,
            m_outlineVertices := map (\<lambda>v. v\<lparr>color := grey\<rparr>) (m_outlineVertices paintedText)\<rparr>"
    by blast+
  with r h c show ?thesis
    by (simp add: paintedText_def testQuad_def mkVertex_def)
qed

text \<open>
  C6. For the string \<open>A\<close>, newline, \<open>B\<close> with the underlined style on, a rebuild whose
  final cursor column is greater than zero leaves in the fill array the quad of \<open>A\<close>,
  the underline of the first line (drawn when the newline is reached, from the offset of
  line 0 to the cursor after kerning), the quad of \<open>B\<close> and the underline of the second
  line (drawn after the loop, from the offset of line 1 to the final cursor): exactly two
  underline rectangles, each with \<open>top = floor(y + offset - thickness / 2 + 1 / 2)\<close> and
  \<open>bottom = top + floor(thickness + 1 / 2)\<close>. When the strike-through style is on as
  well, each underline is followed by the strike-through line of the same extent.
\<close>

theorem underline_two_lines:
  assumes str: "m_string t = [65, 10, 66]"
    and stale: "m_geometryNeedUpdate t \<or> getTextureCacheId f (m_characterSize t) \<noteq> m_fontTextureId t"
    and ul: "m_style t AND Underlined \<noteq> 0"
  shows
  "let sz = m_characterSize t; b = isBold t; sp = getSpacing f t;
       o0 = m_lineOffsets (updateLineOffsets f t) ! 0;
       o1 = m_lineOffsets (updateLineOffsets f t) ! 1;
       th = getUnderlineThickness f sz;
       xA = o0 + getKerning f 0 65 sz b;
       yA = real sz;
       xN = xA + advance (getGlyph f 65 sz b 0) + letterSpacing sp + getKerning f 65 10 sz b;
       xB = o1 + getKerning f 10 66 sz b;
       yB = yA + lineSpacing sp;
       xE = xB + advance (getGlyph f 66 sz b 0) + letterSpacing sp;
       line = (\<lambda>off xl xr y.
                 lineRectangle xl xr (std_floor (y + off - th / 2 + 1 / 2))
                   (std_floor (y + off - th / 2 + 1 / 2) + std_floor (th + 1 / 2)) (m_fillColor t));
       underline = line (getUnderlinePosition f sz);
       strike = (\<lambda>xl xr y. if m_style t AND StrikeThrough \<noteq> 0
                             then line (strikeThroughOffset f t) xl xr y else [])
   in 0 < xE \<longrightarrow>
      (\<exists>t1. ensureGeometryUpdate f t = Inr t1
         \<and> m_vertices t1 =
             addGlyphQuad [] (xA, yA) (m_fillColor t) (getGlyph f 65 sz b 0) (italicShear t)
             @ underline o0 xN yA @ strike o0 xN yA
             @ addGlyphQuad [] (xB, yB) (m_fillColor t) (getGlyph f 66 sz b 0) (italicShear t)
             @ underline o1 xE yB @ strike o1 xE yB)"
proof -
  define t2 where "t2 = updateLineOffsets f (clearGeometry f t)"
  define K where "K p c = getKerning f p c (m_characterSize t) (isBold t)" for p c
  define G where "G c = getGlyph f c (m_characterSize t) (isBold t) 0" for c
  define o0 where "o0 = m_lineOffsets (updateLineOffsets f t) ! 0"
  define o1 where "o1 = m_lineOffsets (updateLineOffsets f t) ! 1"
  define s0 where "s0 = geomInit t2 o0"
  have ne: "m_string t \<noteq> []" using str by simp
  have len: "length (m_lineOffsets t2) = 2"
    by (simp add: t2_def lineOffsets_length clearGeometry_fields str)
  have offs: "m_lineOffsets t2 = m_lineOffsets (updateLineOffsets f t)"
    by (simp add: t2_def lineOffsets_clear)
  have fl: "isUnderlined t2" "isStrikeThrough t2 = (m_style t AND StrikeThrough \<noteq> 0)"
    "isBold t2 = isBold t"
    "italicShear t2 = italicShear t" "m_characterSize t2 = m_characterSize t"
    "m_fillColor t2 = m_fillColor t" "getSpacing f t2 = getSpacing f t"
    "m_vertices t2 = []"
    using ul
    by (simp_all add: t2_def isUnderlined_def isStrikeThrough_def isBold_def italicShear_def
        getSpacing_def updateLineOffsets_fields clearGeometry_fields)
  have uu: "underlineOffset f t2 = getUnderlinePosition f (m_characterSize t)"
    "underlineThickness f t2 = getUnderlineThickness f (m_characterSize t)"
    "strikeThroughOffset f t2 = strikeThroughOffset f t"
    by (simp_all add: underlineOffset_def underlineThickness_def strikeThroughOffset_def fl)
  from rebuildGeometry_nonempty [OF ne, of f] obtain s where
    s: "geomLoop f t2 s0 [65, 10, 66] = Inr s"
    and r: "rebuildGeometry f t = Inr (geomResult t2 (geomFinish f t2 s))"
    unfolding t2_def s0_def o0_def str lineOffsets_clear by blast
  from stale r have e: "ensureGeometryUpdate f t = Inr (geomResult t2 (geomFinish f t2 s))"
    by (auto simp: ensureGeometryUpdate_def)
  \<comment> \<open>the code point \<open>A\<close>\<close>
  define sA where "sA = glyphStep f t2 (s0\<lparr>g_x := g_x s0 + K (g_prevChar s0) 65, g_prevChar := 65\<rparr>) 65"
  have stepA: "geomStep f t2 s0 65 = Inr sA"
    by (simp add: geomStep_glyph sA_def K_def fl)
  have fA: "g_vertices sA = addGlyphQuad [] (o0 + K 0 65, real (m_characterSize t)) (m_fillColor t) (G 65) (italicShear t)"
    "g_x sA = o0 + K 0 65 + advance (G 65) + letterSpacing (getSpacing f t)"
    "g_y sA = real (m_characterSize t)" "g_prevChar sA = 65" "g_line sA = 0"
    "g_horizontalOffset sA = o0"
    by (simp_all add: sA_def glyphStep_fields s0_def geomInit_def fl G_def)
  \<comment> \<open>the newline\<close>
  have at1: "at_index (m_lineOffsets t2) (Suc (g_line sA)) = Inr o1"
    using len by (simp add: at_index_def fA offs o1_def)
  have "g_prevChar sA \<noteq> 10" by (simp add: fA)
  from geomStep_newline [OF this at1, of f] obtain sN where
    stepN: "geomStep f t2 sA 10 = Inr sN"
    and fN: "g_vertices sN =
               g_vertices sA
               @ lineRectangle o0 (g_x sA + K 65 10)
                   (std_floor (real (m_characterSize t) + getUnderlinePosition f (m_characterSize t)
                      - getUnderlineThickness f (m_characterSize t) / 2 + 1 / 2))
                   (std_floor (real (m_characterSize t) + getUnderlinePosition f (m_characterSize t)
                      - getUnderlineThickness f (m_characterSize t) / 2 + 1 / 2)
                    + std_floor (getUnderlineThickness f (m_characterSize t) + 1 / 2))
                   (m_fillColor t)
               @ (if m_style t AND StrikeThrough \<noteq> 0
                  then lineRectangle o0 (g_x sA + K 65 10)
                   (std_floor (real (m_characterSize t) + strikeThroughOffset f t
                      - getUnderlineThickness f (m_characterSize t) / 2 + 1 / 2))
                   (std_floor (real (m_characterSize t) + strikeThroughOffset f t
                      - getUnderlineThickness f (m_characterSize t) / 2 + 1 / 2)
                    + std_floor (getUnderlineThickness f (m_characterSize t) + 1 / 2))
                   (m_fillColor t)
                  else [])"
      "g_x sN = o1" "g_y sN = real (m_characterSize t) + lineSpacing (getSpacing f t)"
      "g_horizontalOffset sN = o1" "g_prevChar sN = 10"
    by (auto simp: fA fl uu K_def)
  \<comment> \<open>the code point \<open>B\<close>\<close>
  define sB where "sB = glyphStep f t2 (sN\<lparr>g_x := g_x sN + K (g_prevChar sN) 66, g_prevChar := 66\<rparr>) 66"
  have stepB: "geomStep f t2 sN 66 = Inr sB"
    by (simp add: geomStep_glyph sB_def K_def fl)
  have fB: "g_vertices sB =
      addGlyphQuad (g_vertices sN) (o1 + K 10 66, real (m_characterSize t) + lineSpacing (getSpacing f t))
        (m_fillColor t) (G 66) (italicShear t)"
    "g_x sB = o1 + K 10 66 + advance (G 66) + letterSpacing (getSpacing f t)"
    "g_y sB = real (m_characterSize t) + lineSpacing (getSpacing f t)"
    "g_horizontalOffset sB = o1"
    by (simp_all add: sB_def glyphStep_fields fN fl G_def)
  from s stepA stepN stepB have sB: "s = sB" by simp
  have v: "m_vertices (geomResult t2 (geomFinish f t2 s)) = g_vertices (geomFinish f t2 sB)"
    by (simp add: geomResult_def sB)
  show ?thesis
    unfolding Let_def
    using e
    by (simp add: v geomFinish_fields fB fN fA fl uu addGlyphQuad_append [of "_ @ _"]
        o0_def o1_def K_def G_def)
qed

theorem underline_two_lines_witness:
  "m_string (newText [65, 10, 66] Left Underlined) = [65, 10, 66]
   \<and> m_geometryNeedUpdate (newText [65, 10, 66] Left Underlined)
   \<and> m_style (newText [65, 10, 66] Left Underlined) AND Underlined \<noteq> 0
   \<and> map_sum id (map position \<circ> m_vertices)
        (ensureGeometryUpdate testFont (newText [65, 10, 66] Left Underlined))
       = Inr [(- 1, 19), (9, 19), (- 1, 31), (- 1, 31), (9, 19), (9, 31),
              (0, 22), (10, 22), (0, 23), (0, 23), (10, 22), (10, 23),
              (- 1, 43), (9, 43), (- 1, 55), (- 1, 55), (9, 43), (9, 55),
              (0, 46), (10, 46), (0, 47), (0, 47), (10, 46), (10, 47)]"
proof -
  let ?t = "newText [65, 10, 66] Left Underlined"
  have h: "m_string ?t = [65, 10, 66]"
    "m_geometryNeedUpdate ?t \<or> getTextureCacheId testFont (m_characterSize ?t) \<noteq> m_fontTextureId ?t"
    "m_style ?t AND Underlined \<noteq> 0"
    by (simp_all add: newText_fields Underlined_def)
  have lo: "m_lineOffsets (updateLineOffsets testFont ?t) = [0, 0]"
    by code_simp
  have sp: "getSpacing testFont ?t = \<lparr>whitespaceWidth = 10, letterSpacing = 0, lineSpacing = 24\<rparr>"
    by code_simp
  have sty: "m_style ?t AND StrikeThrough = 0" "italicShear ?t = 0" "isBold ?t = False"
    by (simp_all add: newText_fields Underlined_def StrikeThrough_def italicShear_def Italic_def
        isBold_def Bold_def)
  have us: "Underlined AND StrikeThrough = 0"
    by (simp add: Underlined_def StrikeThrough_def)
  have ft: "getGlyph testFont = (\<lambda>c sz b ot. testGlyph)" "getKerning testFont = (\<lambda>p c sz b. 0)"
    "getUnderlinePosition testFont = (\<lambda>sz. 2)" "getUnderlineThickness testFont = (\<lambda>sz. 1)"
    by (simp_all add: testFont_def)
  from underline_two_lines [OF h]
  obtain t1 where "ensureGeometryUpdate testFont ?t = Inr t1"
    and "map position (m_vertices t1) =
            [(- 1, 19), (9, 19), (- 1, 31), (- 1, 31), (9, 19), (9, 31),
              (0, 22), (10, 22), (0, 23), (0, 23), (10, 22), (10, 23),
              (- 1, 43), (9, 43), (- 1, 55), (- 1, 55), (9, 43), (9, 55),
              (0, 46), (10, 46), (0, 47), (0, 47), (10, 46), (10, 47)]"
    by (auto simp: Let_def lo sp sty ft newText_fields testGlyph_def addGlyphQuad_def
        lineRectangle_def mkVertex_def std_floor_def us)
  with h show ?thesis
    by (simp add: newText_fields)
qed

text \<open>
  C7, as the code has it. For the string \<open>A\<close>, a font whose glyph \<open>A\<close> has advance 10 and
  bounds \<open>(0, 0, 8, 10)\<close> and no kerning before it, character size 20, outline thickness
  0, left alignment and the italic, underlined and strike-through styles off, the rebuild
  builds exactly one quad of six fill vertices, the box \<open>(0, 0, 8, 10)\<close> widened by one
  pixel on every side and placed at the cursor \<open>(0, 20)\<close>, that is from \<open>(-1, 19)\<close> to
  \<open>(9, 31)\<close>; the outline array is empty; the local bounds are \<open>(0, 20, 8, 10)\<close>, the
  glyph box without padding at the cursor, whose \<open>y\<close> starts at the character size.
\<close>

theorem single_glyph_geometry:
  assumes str: "m_string t = [65]"
    and stale: "m_geometryNeedUpdate t \<or> getTextureCacheId f (m_characterSize t) \<noteq> m_fontTextureId t"
    and sz: "m_characterSize t = 20"
    and ot: "m_outlineThickness t = 0"
    and al: "m_lineAlignment t = Left"
    and sty: "m_style t AND Italic = 0" "m_style t AND Underlined = 0"
      "m_style t AND StrikeThrough = 0"
    and adv: "advance (getGlyph f 65 20 (isBold t) 0) = 10"
    and bnd: "bounds (getGlyph f 65 20 (isBold t) 0) =
               \<lparr>rect_left = 0, rect_top = 0, rect_width = 8, rect_height = 10\<rparr>"
    and ker: "getKerning f 0 65 20 (isBold t) = 0"
  shows "\<exists>t1. ensureGeometryUpdate f t = Inr t1
           \<and> map position (m_vertices t1) =
               [(- 1, 19), (9, 19), (- 1, 31), (- 1, 31), (9, 19), (9, 31)]
           \<and> m_outlineVertices t1 = []
           \<and> m_bounds t1 = \<lparr>rect_left = 0, rect_top = 20, rect_width = 8, rect_height = 10\<rparr>"
proof -
  define t2 where "t2 = updateLineOffsets f (clearGeometry f t)"
  define s0 where "s0 = geomInit t2 0"
  have ne: "m_string t \<noteq> []" using str by simp
  have o0: "m_lineOffsets t2 ! 0 = 0"
    unfolding t2_def by (rule lineOffsets_Left_first) (simp add: clearGeometry_fields al)
  have fl: "\<not> isUnderlined t2" "\<not> isStrikeThrough t2" "isBold t2 = isBold t"
    "italicShear t2 = 0" "m_characterSize t2 = 20" "m_outlineThickness t2 = 0"
    "m_vertices t2 = []" "m_outlineVertices t2 = []"
    using sty sz ot
    by (simp_all add: t2_def isUnderlined_def isStrikeThrough_def isBold_def italicShear_def
        updateLineOffsets_fields clearGeometry_fields)
  from rebuildGeometry_nonempty [OF ne, of f] obtain s where
    s: "geomLoop f t2 s0 [65] = Inr s"
    and r: "rebuildGeometry f t = Inr (geomResult t2 (geomFinish f t2 s))"
    unfolding t2_def [symmetric] s0_def o0 str by blast
  from stale r have e: "ensureGeometryUpdate f t = Inr (geomResult t2 (geomFinish f t2 s))"
    by (auto simp: ensureGeometryUpdate_def)
  have "geomStep f t2 s0 65 =
          Inr (glyphStep f t2 (s0\<lparr>g_x := g_x s0 + getKerning f (g_prevChar s0) 65 20 (isBold t),
                                  g_prevChar := 65\<rparr>) 65)"
    by (simp add: geomStep_glyph fl)
  with s have sA: "s = glyphStep f t2 (s0\<lparr>g_x := 0, g_prevChar := 65\<rparr>) 65"
    by (simp add: s0_def geomInit_def ker)
  have fin: "geomFinish f t2 s = s"
    by (simp add: geomFinish_def fl)
  have "map position (g_vertices s) = [(- 1, 19), (9, 19), (- 1, 31), (- 1, 31), (9, 19), (9, 31)]"
    and "g_outlineVertices s = []"
    and "g_minX s = 0" "g_minY s = 20" "g_maxX s = 8" "g_maxY s = 30"
    by (simp_all add: sA glyphStep_def Let_def s0_def geomInit_def fl adv bnd
        addGlyphQuad_def mkVertex_def)
  with e fin show ?thesis
    by (simp add: geomResult_def)
qed

theorem single_glyph_geometry_witness:
  "m_string (newText [65] Left 0) = [65]
   \<and> m_geometryNeedUpdate (newText [65] Left 0)
   \<and> m_characterSize (newText [65] Left 0) = 20
   \<and> m_outlineThickness (newText [65] Left 0) = 0
   \<and> m_lineAlignment (newText [65] Left 0) = Left
   \<and> advance (getGlyph testFont 65 20 (isBold (newText [65] Left 0)) 0) = 10
   \<and> getKerning testFont 0 65 20 (isBold (newText [65] Left 0)) = 0
   \<and> map_sum id (\<lambda>t1. (map position (m_vertices t1), m_outlineVertices t1, m_bounds t1))
        (ensureGeometryUpdate testFont (newText [65] Left 0))
       = Inr ([(- 1, 19), (9, 19), (- 1, 31), (- 1, 31), (9, 19), (9, 31)], [],
              \<lparr>rect_left = 0, rect_top = 20, rect_width = 8, rect_height = 10\<rparr>)"
proof -
  let ?t = "newText [65] Left 0"
  have h: "m_string ?t = [65]"
    "m_geometryNeedUpdate ?t \<or> getTextureCacheId testFont (m_characterSize ?t) \<noteq> m_fontTextureId ?t"
    "m_characterSize ?t = 20" "m_outlineThickness ?t = 0" "m_lineAlignment ?t = Left"
    "m_style ?t AND Italic = 0" "m_style ?t AND Underlined = 0" "m_style ?t AND StrikeThrough = 0"
    "advance (getGlyph testFont 65 20 (isBold ?t) 0) = 10"
    "bounds (getGlyph testFont 65 20 (isBold ?t) 0) =
               \<lparr>rect_left = 0, rect_top = 0, rect_width = 8, rect_height = 10\<rparr>"
    "getKerning testFont 0 65 20 (isBold ?t) = 0"
    by (simp_all add: newText_fields testFont_def testGlyph_def)
  from single_glyph_geometry [OF h] h show ?thesis
    by (auto simp: newText_fields)
qed

text \<open>The bounds stated in the claim, \<open>(-1, -1, 10, 12)\<close>, are not those of the code: in
  the test font the top is 20, at distance 21 from \<open>-1\<close>.\<close>

theorem single_glyph_bounds_counterexample:
  "map_sum id fst (getLocalBounds testFont (newText [65] Left 0))
     = Inr \<lparr>rect_left = 0, rect_top = 20, rect_width = 8, rect_height = 10\<rparr>
   \<and> map_sum id fst (getLocalBounds testFont (newText [65] Left 0))
     \<noteq> Inr \<lparr>rect_left = - 1, rect_top = - 1, rect_width = 10, rect_height = 12\<rparr>
   \<and> map_sum id (\<lambda>r. \<bar>rect_top (fst r) - (- 1)\<bar>) (getLocalBounds testFont (newText [65] Left 0))
     = Inr 21"
  by code_simp

text \<open>
  C8. \<open>getSpacing\<close> returns \<open>letterSpacing = (a / 3) * (letterSpacingFactor - 1)\<close>,
  \<open>whitespaceWidth = a + letterSpacing\<close> and
  \<open>lineSpacing = fontLineSpacing(size) * lineSpacingFactor\<close>, where \<open>a\<close> is the advance of
  the space glyph at the active size and boldness; with a letter-spacing factor of 1 the
  letter spacing is 0 and the whitespace width is \<open>a\<close>.
\<close>

theorem getSpacing_formula:
  "letterSpacing (getSpacing f t) =
     (advance (getGlyph f 32 (m_characterSize t) (isBold t) 0) / 3) * (m_letterSpacingFactor t - 1)
   \<and> whitespaceWidth (getSpacing f t) =
     advance (getGlyph f 32 (m_characterSize t) (isBold t) 0) + letterSpacing (getSpacing f t)
   \<and> lineSpacing (getSpacing f t) = getLineSpacing f (m_characterSize t) * m_lineSpacingFactor t
   \<and> (m_letterSpacingFactor t = 1 \<longrightarrow>
        letterSpacing (getSpacing f t) = 0
        \<and> whitespaceWidth (getSpacing f t) = advance (getGlyph f 32 (m_characterSize t) (isBold t) 0))"
  by (simp add: getSpacing_def Let_def)

theorem getSpacing_formula_witness:
  "m_letterSpacingFactor (newText [] Left 0) = 1
   \<and> letterSpacing (getSpacing testFont (newText [] Left 0)) = 0
   \<and> whitespaceWidth (getSpacing testFont (newText [] Left 0)) = 10"
proof -
  have h: "m_letterSpacingFactor (newText [] Left 0) = 1"
    by (simp add: newText_def)
  have a: "advance (getGlyph testFont 32 (m_characterSize (newText [] Left 0))
             (isBold (newText [] Left 0)) 0) = 10"
    by (simp add: testFont_def testGlyph_def)
  from getSpacing_formula [of testFont "newText [] Left 0"] h a show ?thesis
    by simp
qed

text \<open>
  C9. \<open>findCharacterPos\<close> never fails, and for an index greater than the length of the
  string it returns what it returns for the length itself.
\<close>

theorem findCharacterPos_clamps:
  "(\<exists>p t1. findCharacterPos f tr t i = Inr (p, t1))
   \<and> (length (m_string t) < i \<longrightarrow>
        findCharacterPos f tr t i = findCharacterPos f tr t (length (m_string t)))"
proof -
  have "0 < length (m_lineOffsets (updateLineOffsets f t))"
    by (simp add: lineOffsets_length)
  then have "at_index (m_lineOffsets (updateLineOffsets f t)) 0
               = Inr (m_lineOffsets (updateLineOffsets f t) ! 0)"
    by (simp add: at_index_def)
  then show ?thesis
    by (simp add: findCharacterPos_def Let_def)
qed

theorem findCharacterPos_clamps_witness:
  "length (m_string (newText [65] Left 0)) < 5
   \<and> map_sum id fst (findCharacterPos testFont id (newText [65] Left 0) 5) = Inr (10, 0)"
proof -
  have h: "length (m_string (newText [65] Left 0)) < 5"
    by (simp add: newText_def)
  have v: "map_sum id fst (findCharacterPos testFont id (newText [65] Left 0)
             (length (m_string (newText [65] Left 0)))) = Inr (10, 0)"
    by code_simp
  from findCharacterPos_clamps [of testFont id "newText [65] Left 0" 5] h
  have "findCharacterPos testFont id (newText [65] Left 0) 5
          = findCharacterPos testFont id (newText [65] Left 0)
              (length (m_string (newText [65] Left 0)))"
    by blast
  with h v show ?thesis by simp
qed

text \<open>
  C10. When \<open>ensureGeometryUpdate\<close> rebuilds and the underlined and strike-through styles
  are off, it returns, the fill array holds six vertices for each code point of the string
  that is not a space, a tab, a newline or a carriage return, and the outline array holds
  as many when the outline thickness is not zero and none when it is zero.
\<close>

theorem vertex_counts:
  assumes "m_geometryNeedUpdate t \<or> getTextureCacheId f (m_characterSize t) \<noteq> m_fontTextureId t"
    and "m_style t AND Underlined = 0" and "m_style t AND StrikeThrough = 0"
  shows "\<exists>t1. ensureGeometryUpdate f t = Inr t1
          \<and> length (m_vertices t1) =
              6 * length (filter (\<lambda>c. c \<noteq> 32 \<and> c \<noteq> 9 \<and> c \<noteq> 10 \<and> c \<noteq> 13) (m_string t))
          \<and> length (m_outlineVertices t1) =
              (if m_outlineThickness t \<noteq> 0
               then 6 * length (filter (\<lambda>c. c \<noteq> 32 \<and> c \<noteq> 9 \<and> c \<noteq> 10 \<and> c \<noteq> 13) (m_string t))
               else 0)"
proof (cases "m_string t = []")
  case True
  with assms(1) show ?thesis
    by (auto simp: ensureGeometryUpdate_def rebuildGeometry_def clearGeometry_fields)
next
  case False
  define t2 where "t2 = updateLineOffsets f (clearGeometry f t)"
  from rebuildGeometry_nonempty [OF False, of f] obtain s where
    s: "geomLoop f t2 (geomInit t2 (m_lineOffsets t2 ! 0)) (m_string t) = Inr s"
    and r: "rebuildGeometry f t = Inr (geomResult t2 (geomFinish f t2 s))"
    unfolding t2_def by blast
  have sty: "m_style t2 = m_style t" "m_outlineThickness t2 = m_outlineThickness t"
    "m_vertices t2 = []" "m_outlineVertices t2 = []"
    by (simp_all add: t2_def updateLineOffsets_fields clearGeometry_fields)
  from sty(1) assms(2,3) have nd: "\<not> isUnderlined t2" "\<not> isStrikeThrough t2"
    by (simp_all add: isUnderlined_def isStrikeThrough_def)
  from assms(1) r have e: "ensureGeometryUpdate f t = Inr (geomResult t2 (geomFinish f t2 s))"
    by (auto simp: ensureGeometryUpdate_def)
  from geomLoop_count [OF nd s] sty geomFinish_plain [OF nd, of f s]
  have "length (m_vertices (geomResult t2 (geomFinish f t2 s))) =
          6 * length (filter (\<lambda>c. c \<noteq> 32 \<and> c \<noteq> 9 \<and> c \<noteq> 10 \<and> c \<noteq> 13) (m_string t))"
    and "length (m_outlineVertices (geomResult t2 (geomFinish f t2 s))) =
          (if m_outlineThickness t \<noteq> 0
           then 6 * length (filter (\<lambda>c. c \<noteq> 32 \<and> c \<noteq> 9 \<and> c \<noteq> 10 \<and> c \<noteq> 13) (m_string t))
           else 0)"
    by (simp_all add: geomResult_def geomInit_def)
  with e show ?thesis by simp
qed

theorem vertex_counts_witness:
  "m_geometryNeedUpdate ((newText [65, 32, 13, 10, 9, 66] Center Bold)\<lparr>m_outlineThickness := 2\<rparr>)
   \<and> m_style ((newText [65, 32, 13, 10, 9, 66] Center Bold)\<lparr>m_outlineThickness := 2\<rparr>) AND Underlined = 0
   \<and> m_style ((newText [65, 32, 13, 10, 9, 66] Center Bold)\<lparr>m_outlineThickness := 2\<rparr>) AND StrikeThrough = 0
   \<and> map_sum id (\<lambda>t1. (length (m_vertices t1), length (m_outlineVertices t1)))
       (ensureGeometryUpdate testFont
          ((newText [65, 32, 13, 10, 9, 66] Center Bold)\<lparr>m_outlineThickness := 2\<rparr>))
       = Inr (12, 12)"
proof -
  let ?t = "(newText [65, 32, 13, 10, 9, 66] Center Bold)\<lparr>m_outlineThickness := 2\<rparr>"
  have h: "m_geometryNeedUpdate ?t \<or> getTextureCacheId testFont (m_characterSize ?t) \<noteq> m_fontTextureId ?t"
    "m_style ?t AND Underlined = 0" "m_style ?t AND StrikeThrough = 0"
    by (simp_all add: newText_def Bold_def Underlined_def StrikeThrough_def)
  have s: "m_string ?t = [65, 32, 13, 10, 9, 66]" "m_outlineThickness ?t = 2"
    by (simp_all add: newText_def)
  from vertex_counts [OF h] obtain t1 where
    "ensureGeometryUpdate testFont ?t = Inr t1" "length (m_vertices t1) = 12"
    "length (m_outlineVertices t1) = 12"
    unfolding s by auto
  with h show ?thesis
    by (simp add: newText_def)
qed

end
